theory Spec2Isabelle
  imports Complex_Main
begin

section \<open>Errors-in-variables regression: the model built by \<open>LinearRegressionwithErrors.fit\<close>\<close>

text \<open>
  The source is \<^verbatim>\<open>regression/linear_model.py\<close>: one method, \<^verbatim>\<open>fit\<close>, which coerces
  two of its arguments with \<^verbatim>\<open>np.atleast_2d\<close>, declares nine random variables inside a
  \<^verbatim>\<open>pm.Model()\<close> context, runs \<^verbatim>\<open>pm.sample\<close> and stores the trace on \<^verbatim>\<open>self\<close>.

  The embedding keeps the method's own statements in their order. The probabilistic
  programming engine (pymc3 over theano) is not part of the repository: it is a parameter,
  an \<open>engine\<close>, which may accept or reject each declaration and each tensor expression and
  which turns a finished model into a trace. What \<^verbatim>\<open>fit\<close> hands to the engine is symbolic:
  a list of declarations, in the order of the source.
\<close>

subsection \<open>Python values and numpy arrays\<close>

text \<open>
  An array is its shape and its entries in row-major order. The arguments of \<^verbatim>\<open>fit\<close> are
  Python objects: a number, a flat list of numbers, or an array of any dimension (nested
  sequences are given as the arrays numpy reads them as). Only an array has the attribute
  \<^verbatim>\<open>.shape\<close>.
\<close>

record ndarray =
  shape :: "nat list"
  data :: "real list"

datatype pyobj = PyFloat real | PyList "real list" | NDArray ndarray

text \<open>
  What \<^verbatim>\<open>fit\<close> can raise: Python's own AttributeError, IndexError and TypeError, or
  whatever the engine raises, passed on unchanged.
\<close>

datatype 'e exn = AttributeError | IndexError | TypeError | EngineError 'e

definition bind_result :: "'x + 'a \<Rightarrow> ('a \<Rightarrow> 'x + 'b) \<Rightarrow> 'x + 'b" where
  "bind_result r f = (case r of Inl e \<Rightarrow> Inl e | Inr v \<Rightarrow> f v)"

definition ndim :: "ndarray \<Rightarrow> nat" where
  "ndim a = length (shape a)"

text \<open>\<^verbatim>\<open>np.asanyarray\<close>: a number is a 0-d array, a list of \<open>n\<close> numbers a 1-d array.\<close>

fun asanyarray :: "pyobj \<Rightarrow> ndarray" where
  "asanyarray (PyFloat r) = \<lparr>shape = [], data = [r]\<rparr>"
| "asanyarray (PyList xs) = \<lparr>shape = [length xs], data = xs\<rparr>"
| "asanyarray (NDArray a) = a"

text \<open>
  \<^verbatim>\<open>np.atleast_2d\<close> for one argument:
  \<^verbatim>\<open>
  ary = asanyarray(ary)
  if ary.ndim == 0:   result = ary.reshape(1, 1)
  elif ary.ndim == 1: result = ary[newaxis, :]
  else:               result = ary
  \<close>
\<close>

definition atleast_2d :: "pyobj \<Rightarrow> ndarray" where
  "atleast_2d ary =
     (let a = asanyarray ary in
      if ndim a = 0 then a\<lparr>shape := [1, 1]\<rparr>
      else if ndim a = 1 then a\<lparr>shape := 1 # shape a\<rparr>
      else a)"

text \<open>\<^verbatim>\<open>obj.shape\<close>: lists and numbers have no such attribute.\<close>

fun getattr_shape :: "pyobj \<Rightarrow> 'e exn + nat list" where
  "getattr_shape (NDArray a) = Inr (shape a)"
| "getattr_shape (PyList xs) = Inl AttributeError"
| "getattr_shape (PyFloat r) = Inl AttributeError"


text \<open>\<^verbatim>\<open>shape[i]\<close> on a tuple, for \<open>i \<ge> 0\<close>: IndexError out of range.\<close>

definition shape_index :: "nat list \<Rightarrow> nat \<Rightarrow> 'e exn + nat" where
  "shape_index s i = (if i < length s then Inr (s ! i) else Inl IndexError)"

text \<open>\<^verbatim>\<open>X.T.shape\<close>: the transpose of an array has the axes reversed.\<close>

definition T_shape :: "ndarray \<Rightarrow> nat list" where
  "T_shape a = rev (shape a)"

subsection \<open>Symbolic expressions and declarations\<close>

text \<open>
  The arguments of a distribution are theano expressions: a declared random variable (by
  its name), a Python constant, a data object passed as it is, \<^verbatim>\<open>e.T\<close>,
  \<^verbatim>\<open>tt.dot(a, b)\<close> and \<^verbatim>\<open>a + b\<close>.
\<close>

datatype expr =
    RV string
  | Const real
  | Obj pyobj
  | Transpose expr
  | Dot expr expr
  | Add expr expr

text \<open>
  \<^verbatim>\<open>pm.Normal\<close> takes its dispersion under one of two keywords: \<^verbatim>\<open>sd=\<close> (standard
  deviation) or \<^verbatim>\<open>tau=\<close> (precision).
\<close>

datatype dispersion = Sd expr | Tau expr

datatype distribution = Flat | HalfFlat | Normal expr dispersion

text \<open>
  One call \<^verbatim>\<open>pm.<Dist>(name, ..., shape=..., observed=...)\<close>. A call without
  \<^verbatim>\<open>shape=\<close> has pymc3's default shape \<^verbatim>\<open>()\<close>, a scalar; a call without
  \<^verbatim>\<open>observed=\<close> declares a free variable.
\<close>

record rv_decl =
  rv_name :: string
  rv_dist :: distribution
  rv_shape :: "nat list"
  rv_observed :: "pyobj option"

type_synonym pm_model = "rv_decl list"

subsection \<open>The engine\<close>

text \<open>
  A trace maps a variable name to its draws, each draw being the list of the variable's
  components. The keyword arguments of \<^verbatim>\<open>pm.sample\<close> are name--value pairs.
\<close>

type_synonym trace = "string \<Rightarrow> real list list option"

type_synonym kwargs = "(string \<times> real) list"

text \<open>
  The engine: \<open>admit m d\<close> is what happens when declaration \<open>d\<close> is made in a context
  that holds \<open>m\<close> (\<open>None\<close>: accepted; \<open>Some e\<close>: the engine raises \<open>e\<close>); \<open>build m e\<close>
  is the same for building the tensor expression \<open>e\<close> over the variables of \<open>m\<close>;
  \<open>sample m kw\<close> is \<^verbatim>\<open>pm.sample(**kw)\<close> in a context that holds \<open>m\<close>.
\<close>

record 'e engine =
  admit :: "pm_model \<Rightarrow> rv_decl \<Rightarrow> 'e option"
  build :: "pm_model \<Rightarrow> expr \<Rightarrow> 'e option"
  sample :: "pm_model \<Rightarrow> kwargs \<Rightarrow> 'e + trace"

definition register_rv :: "'e engine \<Rightarrow> pm_model \<Rightarrow> rv_decl \<Rightarrow> 'e exn + pm_model" where
  "register_rv eng m d =
     (case admit eng m d of Some e \<Rightarrow> Inl (EngineError e) | None \<Rightarrow> Inr (m @ [d]))"

definition tensor :: "'e engine \<Rightarrow> pm_model \<Rightarrow> expr \<Rightarrow> 'e exn + expr" where
  "tensor eng m e = (case build eng m e of Some x \<Rightarrow> Inl (EngineError x) | None \<Rightarrow> Inr e)"

definition pm_sample :: "'e engine \<Rightarrow> pm_model \<Rightarrow> kwargs \<Rightarrow> 'e exn + trace" where
  "pm_sample eng m kw = (case sample eng m kw of Inl e \<Rightarrow> Inl (EngineError e) | Inr t \<Rightarrow> Inr t)"

subsection \<open>The regressor and \<open>fit\<close>\<close>

text \<open>
  An instance of \<^verbatim>\<open>LinearRegressionwithErrors\<close> has the attribute \<^verbatim>\<open>trace\<close> once
  \<^verbatim>\<open>fit\<close> has set it; the attributes of the base class are the record's extension.
  Instances live in a store, addressed by reference, so that returning \<^verbatim>\<open>self\<close> and
  returning a copy differ.
\<close>

record regressor =
  trace :: "trace option"

type_synonym ref = nat

type_synonym 'a heap = "ref \<Rightarrow> 'a regressor_scheme"

definition default_sample_kwargs :: kwargs where
  "default_sample_kwargs = [(''draws'', 1000), (''target_accept'', 0.9)]"

text \<open>
  The argument \<^verbatim>\<open>sample_kwargs\<close> as the caller gives it: left out (the default
  dictionary), a dictionary, or an object that \<^verbatim>\<open>**\<close> cannot unpack (\<^verbatim>\<open>None\<close>, a
  number), for which the call \<^verbatim>\<open>pm.sample(**sample_kwargs)\<close> raises TypeError before
  the sampler is entered.
\<close>

datatype sample_arg = Omitted | Mapping kwargs | NotAMapping

fun kwargs_of :: "sample_arg \<Rightarrow> kwargs option" where
  "kwargs_of Omitted = Some default_sample_kwargs"
| "kwargs_of (Mapping kw) = Some kw"
| "kwargs_of NotAMapping = None"

definition unpack :: "sample_arg \<Rightarrow> 'e exn + kwargs" where
  "unpack a = (case kwargs_of a of None \<Rightarrow> Inl TypeError | Some kw \<Rightarrow> Inr kw)"

text \<open>
  Lines 21 to 32: the priors \<^verbatim>\<open>slope\<close>, \<^verbatim>\<open>inter\<close>, \<^verbatim>\<open>int_std\<close>, \<^verbatim>\<open>tau\<close>, \<^verbatim>\<open>mu\<close> and
  the latent \<^verbatim>\<open>ksi\<close>. \<open>X\<close> is the coerced array.
\<close>

definition declare_priors :: "'e engine \<Rightarrow> ndarray \<Rightarrow> 'e exn + pm_model" where
  "declare_priors eng X =
     bind_result (shape_index (shape X) 0) (\<lambda>d.
     bind_result (register_rv eng []
        \<lparr>rv_name = ''slope'', rv_dist = Flat, rv_shape = [d], rv_observed = None\<rparr>) (\<lambda>m.
     bind_result (register_rv eng m
        \<lparr>rv_name = ''inter'', rv_dist = Flat, rv_shape = [], rv_observed = None\<rparr>) (\<lambda>m.
     bind_result (register_rv eng m
        \<lparr>rv_name = ''int_std'', rv_dist = HalfFlat, rv_shape = [], rv_observed = None\<rparr>) (\<lambda>m.
     bind_result (shape_index (shape X) 0) (\<lambda>d.
     bind_result (register_rv eng m
        \<lparr>rv_name = ''tau'', rv_dist = HalfFlat, rv_shape = [d], rv_observed = None\<rparr>) (\<lambda>m.
     bind_result (shape_index (shape X) 0) (\<lambda>d.
     bind_result (register_rv eng m
        \<lparr>rv_name = ''mu'', rv_dist = Normal (Const 0) (Sd (RV ''tau'')),
         rv_shape = [d], rv_observed = None\<rparr>) (\<lambda>m.
     register_rv eng m
        \<lparr>rv_name = ''ksi'', rv_dist = Normal (RV ''mu'') (Tau (RV ''tau'')),
         rv_shape = T_shape X, rv_observed = None\<rparr>))))))))"

text \<open>
  Lines 35 to 40: \<^verbatim>\<open>eta\<close> and the two observed variables. The arguments of each call are
  evaluated left to right, so the mean of \<^verbatim>\<open>eta\<close> is built before \<^verbatim>\<open>y.shape\<close> is read.
  \<open>X\<close> and \<open>x_error\<close> are the coerced arrays; \<open>y\<close> and \<open>y_error\<close> are the caller's objects.
\<close>

definition eta_mean :: expr where
  "eta_mean = Add (Dot (Transpose (RV ''slope'')) (Transpose (RV ''ksi''))) (RV ''inter'')"

definition declare_likelihood ::
  "'e engine \<Rightarrow> pm_model \<Rightarrow> ndarray \<Rightarrow> pyobj \<Rightarrow> pyobj \<Rightarrow> ndarray \<Rightarrow> 'e exn + pm_model" where
  "declare_likelihood eng m X y y_error x_error =
     bind_result (tensor eng m eta_mean) (\<lambda>mean.
     bind_result (getattr_shape y) (\<lambda>ys.
     bind_result (register_rv eng m
        \<lparr>rv_name = ''eta'', rv_dist = Normal mean (Sd (RV ''int_std'')),
         rv_shape = ys, rv_observed = None\<rparr>) (\<lambda>m.
     bind_result (tensor eng m (Transpose (RV ''ksi''))) (\<lambda>ksiT.
     bind_result (register_rv eng m
        \<lparr>rv_name = ''xi'', rv_dist = Normal ksiT (Sd (Obj (NDArray x_error))),
         rv_shape = shape X, rv_observed = Some (NDArray X)\<rparr>) (\<lambda>m.
     bind_result (getattr_shape y) (\<lambda>ys.
     register_rv eng m
        \<lparr>rv_name = ''yi'', rv_dist = Normal (RV ''eta'') (Sd (Obj y_error)),
         rv_shape = ys, rv_observed = Some y\<rparr>))))))"

text \<open>The body of the \<^verbatim>\<open>with pm.Model():\<close> block up to the call of the sampler.\<close>

definition construct ::
  "'e engine \<Rightarrow> ndarray \<Rightarrow> pyobj \<Rightarrow> pyobj \<Rightarrow> ndarray \<Rightarrow> 'e exn + pm_model" where
  "construct eng X y y_error x_error =
     bind_result (declare_priors eng X) (\<lambda>m.
     declare_likelihood eng m X y y_error x_error)"

text \<open>
  \<^verbatim>\<open>fit(self, X, y, y_error, x_error, sample_kwargs={...})\<close>. An exception leaves the
  store as it was; a normal return gives the new store and the reference returned.
\<close>

definition fit ::
  "'e engine \<Rightarrow> 'a heap \<Rightarrow> ref \<Rightarrow> pyobj \<Rightarrow> pyobj \<Rightarrow> pyobj \<Rightarrow> pyobj \<Rightarrow> sample_arg
     \<Rightarrow> 'e exn + ('a heap \<times> ref)" where
  "fit eng h self X y y_error x_error sample_kwargs =
     (let X2 = atleast_2d X;
          x_error2 = atleast_2d x_error
      in bind_result (construct eng X2 y y_error x_error2) (\<lambda>m.
         bind_result (unpack sample_kwargs) (\<lambda>kw.
         bind_result (pm_sample eng m kw) (\<lambda>t.
         Inr (h(self := (h self)\<lparr>trace := Some t\<rparr>), self)))))"

subsection \<open>Reading a model\<close>

text \<open>A declaration is found by its name; the free variables are those not observed.\<close>

definition lookup_rv :: "pm_model \<Rightarrow> string \<Rightarrow> rv_decl option" where
  "lookup_rv m n = find (\<lambda>d. rv_name d = n) m"

definition free_names :: "pm_model \<Rightarrow> string list" where
  "free_names m = map rv_name (filter (\<lambda>d. rv_observed d = None) m)"

text \<open>
  Shapes of expressions, as numpy and theano compute them: broadcasting aligns two shapes
  from the right, and axes agree when they are equal or one of them is 1;
  \<^verbatim>\<open>dot(a, b)\<close> multiplies when an argument is 0-d and otherwise sums over the last
  axis of \<open>a\<close> and the last-but-one axis of \<open>b\<close> (the only axis of a 1-d \<open>b\<close>);
  \<^verbatim>\<open>.T\<close> reverses the axes. \<open>None\<close> is a shape mismatch or an undeclared variable.
\<close>

fun broadcast_rev :: "nat list \<Rightarrow> nat list \<Rightarrow> nat list option" where
  "broadcast_rev [] ys = Some ys"
| "broadcast_rev (x # xs) [] = Some (x # xs)"
| "broadcast_rev (x # xs) (y # ys) =
     (if x = y \<or> y = 1 then map_option ((#) x) (broadcast_rev xs ys)
      else if x = 1 then map_option ((#) y) (broadcast_rev xs ys)
      else None)"

definition broadcast :: "nat list \<Rightarrow> nat list \<Rightarrow> nat list option" where
  "broadcast s t = map_option rev (broadcast_rev (rev s) (rev t))"

definition dot_shape :: "nat list \<Rightarrow> nat list \<Rightarrow> nat list option" where
  "dot_shape a b =
     (if a = [] then Some b
      else if b = [] then Some a
      else if length b = 1 then (if last a = hd b then Some (butlast a) else None)
      else if last a = b ! (length b - 2)
           then Some (butlast a @ butlast (butlast b) @ [last b])
      else None)"

fun expr_shape :: "pm_model \<Rightarrow> expr \<Rightarrow> nat list option" where
  "expr_shape m (RV n) = map_option rv_shape (lookup_rv m n)"
| "expr_shape m (Const c) = Some []"
| "expr_shape m (Obj ob) = Some (shape (asanyarray ob))"
| "expr_shape m (Transpose e) = map_option rev (expr_shape m e)"
| "expr_shape m (Dot a b) =
     (case (expr_shape m a, expr_shape m b) of
        (Some s, Some t) \<Rightarrow> dot_shape s t
      | _ \<Rightarrow> None)"
| "expr_shape m (Add a b) =
     (case (expr_shape m a, expr_shape m b) of
        (Some s, Some t) \<Rightarrow> broadcast s t
      | _ \<Rightarrow> None)"

text \<open>
  The support of a prior: \<^verbatim>\<open>Flat\<close> is improper over all reals, \<^verbatim>\<open>HalfFlat\<close> over the
  non-negative half line, a Normal has all reals. (pymc3 gives \<^verbatim>\<open>HalfFlat\<close> density at
  positive values only; the boundary point is included here, which makes the sampler's
  contract below the weaker one.)
\<close>

fun in_support :: "distribution \<Rightarrow> real \<Rightarrow> bool" where
  "in_support Flat v = True"
| "in_support HalfFlat v = (0 \<le> v)"
| "in_support (Normal mean disp) v = True"

text \<open>
  The standard deviation of a Normal whose dispersion argument has the value \<open>val e\<close>:
  under \<^verbatim>\<open>sd=\<close> it is that value, under \<^verbatim>\<open>tau=\<close> (precision) it is \<open>1 / sqrt\<close> of it.
\<close>

fun std_of :: "(expr \<Rightarrow> real) \<Rightarrow> dispersion \<Rightarrow> real" where
  "std_of val (Sd e) = val e"
| "std_of val (Tau e) = 1 / sqrt (val e)"

fun dispersion_of :: "distribution \<Rightarrow> dispersion option" where
  "dispersion_of (Normal mean disp) = Some disp"
| "dispersion_of Flat = None"
| "dispersion_of HalfFlat = None"

text \<open>
  The contract of a sampler that \<^verbatim>\<open>fit\<close> relies on for the values in a trace: every
  component of every draw of a free variable lies in the support of the variable's prior.
\<close>

definition respects_support :: "'e engine \<Rightarrow> bool" where
  "respects_support eng \<longleftrightarrow>
     (\<forall>m kw t. sample eng m kw = Inr t \<longrightarrow>
        (\<forall>d \<in> set m. rv_observed d = None \<longrightarrow>
           (\<forall>draws. t (rv_name d) = Some draws \<longrightarrow>
              (\<forall>draw \<in> set draws. \<forall>v \<in> set draw. in_support (rv_dist d) v))))"

text \<open>
  The contract for the variables in a trace: every free variable of the model has an
  entry. (A trace may hold further entries, such as pymc3's transformed variables.)
\<close>

definition covers_free_variables :: "'e engine \<Rightarrow> bool" where
  "covers_free_variables eng \<longleftrightarrow>
     (\<forall>m kw t. sample eng m kw = Inr t \<longrightarrow> (\<forall>n \<in> set (free_names m). t n \<noteq> None))"

subsection \<open>Engines and inputs\<close>

text \<open>
  An engine that accepts everything and returns, for each free variable, a single draw of
  zeros of the declared size; an engine that refuses every declaration; and an engine that
  checks shapes and signs where a tensor library does: an expression must have a shape,
  the mean and the dispersion of a Normal must broadcast to the declared shape, and the
  sampler refuses a standard deviation given as data with a negative entry.
\<close>

definition zero_trace :: "pm_model \<Rightarrow> trace" where
  "zero_trace m n =
     (case find (\<lambda>d. rv_name d = n \<and> rv_observed d = None) m of
        None \<Rightarrow> None
      | Some d \<Rightarrow> Some [replicate (prod_list (rv_shape d)) 0])"

definition permissive_engine :: "string engine" where
  "permissive_engine =
     \<lparr>admit = (\<lambda>m d. None), build = (\<lambda>m e. None), sample = (\<lambda>m kw. Inr (zero_trace m))\<rparr>"







definition fresh_heap :: "unit heap" where
  "fresh_heap = (\<lambda>r. \<lparr>trace = None\<rparr>)"

text \<open>One covariate, five observations, errors of 0.1 on both axes.\<close>

definition ex_X :: pyobj where
  "ex_X = PyList [1, 2, 3, 4, 5]"

definition ex_y :: pyobj where
  "ex_y = NDArray \<lparr>shape = [5], data = [2.1, 3.9, 6.2, 7.8, 10.1]\<rparr>"


definition ex_error :: pyobj where
  "ex_error = PyList [0.1, 0.1, 0.1, 0.1, 0.1]"

text \<open>The declarations that this input leads to, in order (lemma \<open>ex_construct\<close>).\<close>

definition ex_model :: pm_model where
  "ex_model =
    [\<lparr>rv_name = ''slope'', rv_dist = Flat, rv_shape = [1], rv_observed = None\<rparr>,
     \<lparr>rv_name = ''inter'', rv_dist = Flat, rv_shape = [], rv_observed = None\<rparr>,
     \<lparr>rv_name = ''int_std'', rv_dist = HalfFlat, rv_shape = [], rv_observed = None\<rparr>,
     \<lparr>rv_name = ''tau'', rv_dist = HalfFlat, rv_shape = [1], rv_observed = None\<rparr>,
     \<lparr>rv_name = ''mu'', rv_dist = Normal (Const 0) (Sd (RV ''tau'')),
      rv_shape = [1], rv_observed = None\<rparr>,
     \<lparr>rv_name = ''ksi'', rv_dist = Normal (RV ''mu'') (Tau (RV ''tau'')),
      rv_shape = [5, 1], rv_observed = None\<rparr>,
     \<lparr>rv_name = ''eta'', rv_dist = Normal eta_mean (Sd (RV ''int_std'')),
      rv_shape = [5], rv_observed = None\<rparr>,
     \<lparr>rv_name = ''xi'',
      rv_dist = Normal (Transpose (RV ''ksi''))
        (Sd (Obj (NDArray \<lparr>shape = [1, 5], data = [0.1, 0.1, 0.1, 0.1, 0.1]\<rparr>))),
      rv_shape = [1, 5],
      rv_observed = Some (NDArray \<lparr>shape = [1, 5], data = [1, 2, 3, 4, 5]\<rparr>)\<rparr>,
     \<lparr>rv_name = ''yi'', rv_dist = Normal (RV ''eta'') (Sd (Obj ex_error)),
      rv_shape = [5], rv_observed = Some ex_y\<rparr>]"










section \<open>Properties\<close>

subsection \<open>Sequencing and the engine's answers\<close>

lemma bind_result_Inr:
  "bind_result r f = Inr v \<longleftrightarrow> (\<exists>x. r = Inr x \<and> f x = Inr v)"
  by (cases r) (simp_all add: bind_result_def)

lemma register_rv_Inr:
  "register_rv eng m d = Inr m' \<longleftrightarrow> admit eng m d = None \<and> m' = m @ [d]"
  by (auto simp: register_rv_def split: option.splits)

lemma tensor_Inr: "tensor eng m e = Inr e' \<longleftrightarrow> build eng m e = None \<and> e' = e"
  by (auto simp: tensor_def split: option.splits)

lemma unpack_Inr: "unpack a = Inr kw \<longleftrightarrow> kwargs_of a = Some kw"
  by (auto simp: unpack_def split: option.splits)

lemma shape_index_Inr:
  "shape_index s i = Inr d \<longleftrightarrow> i < length s \<and> d = s ! i"
  by (auto simp: shape_index_def)

lemma getattr_shape_Inr:
  "getattr_shape y = Inr s \<longleftrightarrow> (\<exists>a. y = NDArray a \<and> s = shape a)"
  by (cases y) auto

lemma atleast_2d_ndim: "2 \<le> length (shape (atleast_2d a))"
proof -
  let ?s = "shape (asanyarray a)"
  consider "length ?s = 0" | "length ?s = 1" | "2 \<le> length ?s"
    by linarith
  then show ?thesis
    by cases (simp_all add: atleast_2d_def ndim_def Let_def)
qed


lemma atleast_2d_idem: "atleast_2d (NDArray (atleast_2d a)) = atleast_2d a"
proof -
  have "ndim (atleast_2d a) \<noteq> 0" "ndim (atleast_2d a) \<noteq> 1"
    using atleast_2d_ndim [of a] by (auto simp: ndim_def)
  then show ?thesis
    by (simp add: atleast_2d_def [of "NDArray (atleast_2d a)"])
qed





lemma pm_sample_Inr: "pm_sample eng m kw = Inr t \<longleftrightarrow> sample eng m kw = Inr t"
  by (auto simp: pm_sample_def split: sum.splits)





subsection \<open>The declarations of a completed construction\<close>

lemma declare_priors_Inr:
  assumes "declare_priors eng X = Inr m"
  shows "shape X \<noteq> [] \<and> m =
    [\<lparr>rv_name = ''slope'', rv_dist = Flat, rv_shape = [shape X ! 0], rv_observed = None\<rparr>,
     \<lparr>rv_name = ''inter'', rv_dist = Flat, rv_shape = [], rv_observed = None\<rparr>,
     \<lparr>rv_name = ''int_std'', rv_dist = HalfFlat, rv_shape = [], rv_observed = None\<rparr>,
     \<lparr>rv_name = ''tau'', rv_dist = HalfFlat, rv_shape = [shape X ! 0], rv_observed = None\<rparr>,
     \<lparr>rv_name = ''mu'', rv_dist = Normal (Const 0) (Sd (RV ''tau'')),
      rv_shape = [shape X ! 0], rv_observed = None\<rparr>,
     \<lparr>rv_name = ''ksi'', rv_dist = Normal (RV ''mu'') (Tau (RV ''tau'')),
      rv_shape = rev (shape X), rv_observed = None\<rparr>]"
  using assms
  unfolding declare_priors_def bind_result_Inr register_rv_Inr T_shape_def shape_index_Inr
  by auto

lemma declare_likelihood_Inr:
  assumes "declare_likelihood eng m X y y_error x_error = Inr m'"
  shows "\<exists>ya. y = NDArray ya \<and> m' = m @
    [\<lparr>rv_name = ''eta'', rv_dist = Normal eta_mean (Sd (RV ''int_std'')),
      rv_shape = shape ya, rv_observed = None\<rparr>,
     \<lparr>rv_name = ''xi'', rv_dist = Normal (Transpose (RV ''ksi'')) (Sd (Obj (NDArray x_error))),
      rv_shape = shape X, rv_observed = Some (NDArray X)\<rparr>,
     \<lparr>rv_name = ''yi'', rv_dist = Normal (RV ''eta'') (Sd (Obj y_error)),
      rv_shape = shape ya, rv_observed = Some (NDArray ya)\<rparr>]"
  using assms
  unfolding declare_likelihood_def bind_result_Inr register_rv_Inr tensor_Inr getattr_shape_Inr
  by auto

lemma construct_Inr:
  assumes "construct eng X y y_error x_error = Inr m"
  shows "shape X \<noteq> [] \<and> (\<exists>ya. y = NDArray ya \<and> m =
    [\<lparr>rv_name = ''slope'', rv_dist = Flat, rv_shape = [shape X ! 0], rv_observed = None\<rparr>,
     \<lparr>rv_name = ''inter'', rv_dist = Flat, rv_shape = [], rv_observed = None\<rparr>,
     \<lparr>rv_name = ''int_std'', rv_dist = HalfFlat, rv_shape = [], rv_observed = None\<rparr>,
     \<lparr>rv_name = ''tau'', rv_dist = HalfFlat, rv_shape = [shape X ! 0], rv_observed = None\<rparr>,
     \<lparr>rv_name = ''mu'', rv_dist = Normal (Const 0) (Sd (RV ''tau'')),
      rv_shape = [shape X ! 0], rv_observed = None\<rparr>,
     \<lparr>rv_name = ''ksi'', rv_dist = Normal (RV ''mu'') (Tau (RV ''tau'')),
      rv_shape = rev (shape X), rv_observed = None\<rparr>,
     \<lparr>rv_name = ''eta'', rv_dist = Normal eta_mean (Sd (RV ''int_std'')),
      rv_shape = shape ya, rv_observed = None\<rparr>,
     \<lparr>rv_name = ''xi'', rv_dist = Normal (Transpose (RV ''ksi'')) (Sd (Obj (NDArray x_error))),
      rv_shape = shape X, rv_observed = Some (NDArray X)\<rparr>,
     \<lparr>rv_name = ''yi'', rv_dist = Normal (RV ''eta'') (Sd (Obj y_error)),
      rv_shape = shape ya, rv_observed = Some (NDArray ya)\<rparr>])"
proof -
  from assms obtain m0 where p: "declare_priors eng X = Inr m0"
    and l: "declare_likelihood eng m0 X y y_error x_error = Inr m"
    unfolding construct_def bind_result_Inr by blast
  from declare_priors_Inr [OF p] declare_likelihood_Inr [OF l] show ?thesis
    by auto
qed

subsection \<open>Failures and normal returns\<close>







lemma fit_Inr:
  "fit eng h self X y y_error x_error sample_kwargs = Inr (h', r) \<longleftrightarrow>
     (\<exists>m kw t. construct eng (atleast_2d X) y y_error (atleast_2d x_error) = Inr m
          \<and> kwargs_of sample_kwargs = Some kw
          \<and> sample eng m kw = Inr t
          \<and> h' = h(self := (h self)\<lparr>trace := Some t\<rparr>) \<and> r = self)"
  unfolding fit_def Let_def bind_result_Inr pm_sample_Inr unpack_Inr
  by auto

subsection \<open>The example input\<close>

lemma ex_atleast_2d_shape: "shape (atleast_2d ex_X) = [1, 5]"
  by (simp add: atleast_2d_def ndim_def ex_X_def)

lemma ex_construct:
  "construct permissive_engine (atleast_2d ex_X) ex_y ex_error (atleast_2d ex_error)
     = Inr ex_model"
  by (simp add: construct_def declare_priors_def declare_likelihood_def bind_result_def
      register_rv_def tensor_def shape_index_def T_shape_def permissive_engine_def
      atleast_2d_def ndim_def ex_X_def ex_y_def ex_error_def ex_model_def)

lemma sample_permissive: "sample permissive_engine m kw = Inr (zero_trace m)"
  by (simp add: permissive_engine_def)

lemma ex_fit:
  "fit permissive_engine fresh_heap 0 ex_X ex_y ex_error ex_error Omitted
     = Inr (fresh_heap(0 := (fresh_heap 0)\<lparr>trace := Some (zero_trace ex_model)\<rparr>), 0)"
  by (simp add: fit_Inr ex_construct sample_permissive)


lemma respects_support_permissive: "respects_support permissive_engine"
proof -
  have "in_support d 0" for d
    by (cases d) simp_all
  then show ?thesis
    by (auto simp: respects_support_def permissive_engine_def zero_trace_def
        split: option.splits)
qed

lemma covers_free_variables_permissive: "covers_free_variables permissive_engine"
proof -
  have "find (\<lambda>d. rv_name d = n \<and> rv_observed d = None) m \<noteq> None"
    if "n \<in> set (free_names m)" for n and m :: pm_model
    using that by (auto simp: free_names_def find_None_iff)
  then show ?thesis
    by (auto simp: covers_free_variables_def permissive_engine_def zero_trace_def
        split: option.splits)
qed



subsection \<open>The latent covariates\<close>

text \<open>
  Claim C1. In a model that \<open>fit\<close> has constructed from a coerced \<open>X\<close> of shape \<open>(D, N)\<close>,
  \<open>mu\<close> is Normal with mean 0 and standard deviation \<open>tau\<close>, one value per covariate
  dimension, and \<open>ksi\<close> is Normal with mean \<open>mu\<close> and its dispersion given by the same
  \<open>tau\<close>, of shape \<open>(N, D)\<close>: the shape of the transpose of the coerced \<open>X\<close>, against
  which the length-\<open>D\<close> mean broadcasts.
\<close>

theorem ksi_and_mu_declared:
  assumes "construct eng (atleast_2d X) y y_error (atleast_2d x_error) = Inr m"
    and "shape (atleast_2d X) = [D, N]"
  shows "lookup_rv m ''mu'' = Some
           \<lparr>rv_name = ''mu'', rv_dist = Normal (Const 0) (Sd (RV ''tau'')),
            rv_shape = [D], rv_observed = None\<rparr>
       \<and> lookup_rv m ''ksi'' = Some
           \<lparr>rv_name = ''ksi'', rv_dist = Normal (RV ''mu'') (Tau (RV ''tau'')),
            rv_shape = [N, D], rv_observed = None\<rparr>
       \<and> T_shape (atleast_2d X) = [N, D]
       \<and> expr_shape m (RV ''mu'') = Some [D]
       \<and> broadcast [D] [N, D] = Some [N, D]"
  using construct_Inr [OF assms(1)] assms(2)
  by (auto simp: lookup_rv_def T_shape_def broadcast_def)

theorem ksi_and_mu_declared_witness:
  "construct permissive_engine (atleast_2d ex_X) ex_y ex_error (atleast_2d ex_error)
     = Inr ex_model
   \<and> shape (atleast_2d ex_X) = [1, 5]
   \<and> lookup_rv ex_model ''mu'' = Some
         \<lparr>rv_name = ''mu'', rv_dist = Normal (Const 0) (Sd (RV ''tau'')),
          rv_shape = [1], rv_observed = None\<rparr>
   \<and> lookup_rv ex_model ''ksi'' = Some
         \<lparr>rv_name = ''ksi'', rv_dist = Normal (RV ''mu'') (Tau (RV ''tau'')),
          rv_shape = [5, 1], rv_observed = None\<rparr>
   \<and> broadcast [1] [5, 1] = Some [5, 1]"
  using ksi_and_mu_declared [OF ex_construct ex_atleast_2d_shape] ex_construct
    ex_atleast_2d_shape
  by simp

subsection \<open>Standard deviation against precision\<close>

lemma sd_precision_agree_iff:
  assumes "0 < (t::real)"
  shows "t = 1 / sqrt t \<longleftrightarrow> t = 1"
proof
  assume eq: "t = 1 / sqrt t"
  have s: "0 < sqrt t" using assms by simp
  from eq s have prod: "t * sqrt t = 1" by (simp add: field_simps)
  show "t = 1"
  proof (rule ccontr)
    assume "t \<noteq> 1"
    then consider "t < 1" | "1 < t" by linarith
    then show False
    proof cases
      case 1
      then have "sqrt t < 1" using assms by simp
      with 1 assms s have "t * sqrt t < 1 * 1"
        by (intro mult_strict_mono) simp_all
      with prod show False by simp
    next
      case 2
      then have "1 < sqrt t" by simp
      with 2 have "1 * 1 < t * sqrt t"
        by (intro mult_strict_mono) simp_all
      with prod show False by simp
    qed
  qed
next
  assume "t = 1"
  then show "t = 1 / sqrt t" by simp
qed

text \<open>
  Claim C2. In a constructed model the prior of \<open>mu\<close> takes the variable \<open>tau\<close> under the
  keyword \<^verbatim>\<open>sd\<close> and the prior of \<open>ksi\<close> takes the same variable under the keyword
  \<^verbatim>\<open>tau\<close>. The two readings are not interchangeable: for a positive value \<open>t\<close> of the
  variable the first means a standard deviation \<open>t\<close>, the second \<open>1 / sqrt t\<close>, and these
  agree only at \<open>t = 1\<close>.
\<close>

theorem tau_as_sd_and_as_precision:
  assumes "construct eng (atleast_2d X) y y_error (atleast_2d x_error) = Inr m"
  shows "\<exists>d_mu d_ksi.
           lookup_rv m ''mu'' = Some d_mu \<and> lookup_rv m ''ksi'' = Some d_ksi
         \<and> dispersion_of (rv_dist d_mu) = Some (Sd (RV ''tau''))
         \<and> dispersion_of (rv_dist d_ksi) = Some (Tau (RV ''tau''))
         \<and> (\<forall>val. 0 < val (RV ''tau'') \<longrightarrow>
               std_of val (Sd (RV ''tau'')) = val (RV ''tau'')
             \<and> std_of val (Tau (RV ''tau'')) = 1 / sqrt (val (RV ''tau''))
             \<and> (std_of val (Sd (RV ''tau'')) = std_of val (Tau (RV ''tau''))
                  \<longleftrightarrow> val (RV ''tau'') = 1))"
  using construct_Inr [OF assms]
  by (auto simp: lookup_rv_def sd_precision_agree_iff)

theorem tau_as_sd_and_as_precision_witness:
  "construct permissive_engine (atleast_2d ex_X) ex_y ex_error (atleast_2d ex_error)
     = Inr ex_model
   \<and> (\<exists>d_mu d_ksi.
         lookup_rv ex_model ''mu'' = Some d_mu \<and> lookup_rv ex_model ''ksi'' = Some d_ksi
       \<and> dispersion_of (rv_dist d_mu) = Some (Sd (RV ''tau''))
       \<and> dispersion_of (rv_dist d_ksi) = Some (Tau (RV ''tau'')))
   \<and> std_of (\<lambda>e. 4) (Sd (RV ''tau'')) = 4
   \<and> std_of (\<lambda>e. 4) (Tau (RV ''tau'')) = 1 / 2
   \<and> std_of (\<lambda>e. 4) (Sd (RV ''tau'')) \<noteq> std_of (\<lambda>e. 4) (Tau (RV ''tau''))"
proof -
  from tau_as_sd_and_as_precision [OF ex_construct] obtain d_mu d_ksi where
    decls: "lookup_rv ex_model ''mu'' = Some d_mu" "lookup_rv ex_model ''ksi'' = Some d_ksi"
      "dispersion_of (rv_dist d_mu) = Some (Sd (RV ''tau''))"
      "dispersion_of (rv_dist d_ksi) = Some (Tau (RV ''tau''))"
    by blast
  have "std_of (\<lambda>e. 4) (Sd (RV ''tau'')) = 4" "std_of (\<lambda>e. 4) (Tau (RV ''tau'')) = 1 / 2"
    by simp_all
  with decls ex_construct show ?thesis
    by auto
qed

subsection \<open>The latent response\<close>

text \<open>
  Claim C3. In a model constructed from a response \<open>y\<close> of shape \<open>(N,)\<close> and a coerced \<open>X\<close>
  of shape \<open>(D, N)\<close>, \<open>eta\<close> is Normal of shape \<open>(N,)\<close>; its mean is
  \<^verbatim>\<open>dot(slope.T, ksi.T) + inter\<close>, where \<open>ksi.T\<close> has shape \<open>(D, N)\<close>, so that the dot
  product sums over the \<open>D\<close> axis and has length \<open>N\<close>; its standard deviation is
  \<open>int_std\<close>.
\<close>

theorem eta_declared:
  assumes "construct eng (atleast_2d X) y y_error (atleast_2d x_error) = Inr m"
    and "y = NDArray ya" and "shape ya = [N]"
    and "shape (atleast_2d X) = [D, N]"
  shows "lookup_rv m ''eta'' = Some
           \<lparr>rv_name = ''eta'',
            rv_dist = Normal (Add (Dot (Transpose (RV ''slope'')) (Transpose (RV ''ksi'')))
                                  (RV ''inter''))
                             (Sd (RV ''int_std'')),
            rv_shape = [N], rv_observed = None\<rparr>
       \<and> expr_shape m (Transpose (RV ''slope'')) = Some [D]
       \<and> expr_shape m (Transpose (RV ''ksi'')) = Some [D, N]
       \<and> expr_shape m (Dot (Transpose (RV ''slope'')) (Transpose (RV ''ksi''))) = Some [N]
       \<and> expr_shape m (Add (Dot (Transpose (RV ''slope'')) (Transpose (RV ''ksi'')))
                            (RV ''inter'')) = Some [N]"
  using construct_Inr [OF assms(1)] assms(2-)
  by (auto simp: lookup_rv_def eta_mean_def dot_shape_def broadcast_def)

theorem eta_declared_witness:
  "construct permissive_engine (atleast_2d ex_X) ex_y ex_error (atleast_2d ex_error)
     = Inr ex_model
   \<and> ex_y = NDArray \<lparr>shape = [5], data = [2.1, 3.9, 6.2, 7.8, 10.1]\<rparr>
   \<and> shape (atleast_2d ex_X) = [1, 5]
   \<and> lookup_rv ex_model ''eta'' = Some
         \<lparr>rv_name = ''eta'',
          rv_dist = Normal (Add (Dot (Transpose (RV ''slope'')) (Transpose (RV ''ksi'')))
                                (RV ''inter''))
                           (Sd (RV ''int_std'')),
          rv_shape = [5], rv_observed = None\<rparr>
   \<and> expr_shape ex_model (Dot (Transpose (RV ''slope'')) (Transpose (RV ''ksi''))) = Some [5]"
proof -
  have "shape \<lparr>shape = [5], data = [2.1, 3.9, 6.2, 7.8, 10.1]\<rparr> = [5]"
    by simp
  from eta_declared [OF ex_construct ex_y_def this ex_atleast_2d_shape]
  show ?thesis
    using ex_construct ex_y_def ex_atleast_2d_shape by simp
qed

subsection \<open>The observed variables\<close>

text \<open>
  Claim C4. In a constructed model the data enter as two Normal likelihood terms: \<open>xi\<close>
  with mean \<open>ksi.T\<close> (of the shape of the coerced \<open>X\<close>), standard deviation the coerced
  \<open>x_error\<close> and observed values the coerced \<open>X\<close>; and \<open>yi\<close> with mean \<open>eta\<close>, standard
  deviation \<open>y_error\<close> and observed values \<open>y\<close>.
\<close>

theorem observed_declared:
  assumes "construct eng (atleast_2d X) y y_error (atleast_2d x_error) = Inr m"
  shows "lookup_rv m ''xi'' = Some
           \<lparr>rv_name = ''xi'',
            rv_dist = Normal (Transpose (RV ''ksi'')) (Sd (Obj (NDArray (atleast_2d x_error)))),
            rv_shape = shape (atleast_2d X),
            rv_observed = Some (NDArray (atleast_2d X))\<rparr>
       \<and> expr_shape m (Transpose (RV ''ksi'')) = Some (shape (atleast_2d X))
       \<and> (\<exists>ya. y = NDArray ya \<and> lookup_rv m ''yi'' = Some
           \<lparr>rv_name = ''yi'', rv_dist = Normal (RV ''eta'') (Sd (Obj y_error)),
            rv_shape = shape ya, rv_observed = Some y\<rparr>)"
  using construct_Inr [OF assms]
  by (auto simp: lookup_rv_def)

theorem observed_declared_witness:
  "construct permissive_engine (atleast_2d ex_X) ex_y ex_error (atleast_2d ex_error)
     = Inr ex_model
   \<and> lookup_rv ex_model ''xi'' = Some
         \<lparr>rv_name = ''xi'',
          rv_dist = Normal (Transpose (RV ''ksi''))
            (Sd (Obj (NDArray \<lparr>shape = [1, 5], data = [0.1, 0.1, 0.1, 0.1, 0.1]\<rparr>))),
          rv_shape = [1, 5],
          rv_observed = Some (NDArray \<lparr>shape = [1, 5], data = [1, 2, 3, 4, 5]\<rparr>)\<rparr>
   \<and> expr_shape ex_model (Transpose (RV ''ksi'')) = Some [1, 5]
   \<and> lookup_rv ex_model ''yi'' = Some
         \<lparr>rv_name = ''yi'', rv_dist = Normal (RV ''eta'') (Sd (Obj ex_error)),
          rv_shape = [5], rv_observed = Some ex_y\<rparr>"
  using observed_declared [OF ex_construct] ex_construct
  by (auto simp: atleast_2d_def ndim_def ex_X_def ex_error_def ex_y_def)

subsection \<open>The flat priors\<close>

text \<open>
  Claim C5. In a constructed model \<open>slope\<close> has a flat prior with one value per covariate
  dimension (the first axis of the coerced \<open>X\<close>), \<open>inter\<close> a flat scalar prior, \<open>int_std\<close>
  a half-flat scalar prior and \<open>tau\<close> a half-flat prior with one value per covariate
  dimension; a flat prior admits every real, a half-flat one exactly the non-negative reals.
\<close>

theorem flat_priors_declared:
  assumes "construct eng (atleast_2d X) y y_error (atleast_2d x_error) = Inr m"
  shows "lookup_rv m ''slope'' = Some
           \<lparr>rv_name = ''slope'', rv_dist = Flat,
            rv_shape = [shape (atleast_2d X) ! 0], rv_observed = None\<rparr>
       \<and> lookup_rv m ''inter'' = Some
           \<lparr>rv_name = ''inter'', rv_dist = Flat, rv_shape = [], rv_observed = None\<rparr>
       \<and> lookup_rv m ''int_std'' = Some
           \<lparr>rv_name = ''int_std'', rv_dist = HalfFlat, rv_shape = [], rv_observed = None\<rparr>
       \<and> lookup_rv m ''tau'' = Some
           \<lparr>rv_name = ''tau'', rv_dist = HalfFlat,
            rv_shape = [shape (atleast_2d X) ! 0], rv_observed = None\<rparr>
       \<and> (\<forall>v. in_support Flat v) \<and> (\<forall>v. in_support HalfFlat v \<longleftrightarrow> 0 \<le> v)"
  using construct_Inr [OF assms]
  by (auto simp: lookup_rv_def)

theorem flat_priors_declared_witness:
  "construct permissive_engine (atleast_2d ex_X) ex_y ex_error (atleast_2d ex_error)
     = Inr ex_model
   \<and> lookup_rv ex_model ''slope'' = Some
         \<lparr>rv_name = ''slope'', rv_dist = Flat, rv_shape = [1], rv_observed = None\<rparr>
   \<and> lookup_rv ex_model ''inter'' = Some
         \<lparr>rv_name = ''inter'', rv_dist = Flat, rv_shape = [], rv_observed = None\<rparr>
   \<and> lookup_rv ex_model ''int_std'' = Some
         \<lparr>rv_name = ''int_std'', rv_dist = HalfFlat, rv_shape = [], rv_observed = None\<rparr>
   \<and> lookup_rv ex_model ''tau'' = Some
         \<lparr>rv_name = ''tau'', rv_dist = HalfFlat, rv_shape = [1], rv_observed = None\<rparr>"
  using flat_priors_declared [OF ex_construct] ex_construct ex_atleast_2d_shape
  by simp

subsection \<open>No validation of the inputs\<close>




subsection \<open>The stored trace\<close>

text \<open>
  Claim C7. When \<open>fit\<close> returns normally it returns the reference \<open>self\<close> it was called
  on; the store differs from the one before only in the \<open>trace\<close> attribute of that
  instance, which now holds the trace the sampler returned for the constructed model,
  whose free variables are \<open>slope\<close>, \<open>inter\<close>, \<open>int_std\<close>, \<open>tau\<close>, \<open>mu\<close>, \<open>ksi\<close> and
  \<open>eta\<close> (all of them in the trace, for a sampler that covers the free variables). A later
  \<open>fit\<close> on the same instance behaves as if the earlier one had not happened: the stored
  trace is replaced.
\<close>

theorem trace_stored_on_self:
  assumes "fit eng h self X y y_error x_error sample_kwargs = Inr (h', r)"
  shows "r = self
       \<and> (\<exists>m t kw. construct eng (atleast_2d X) y y_error (atleast_2d x_error) = Inr m
             \<and> kwargs_of sample_kwargs = Some kw \<and> sample eng m kw = Inr t
             \<and> free_names m = [''slope'', ''inter'', ''int_std'', ''tau'', ''mu'', ''ksi'', ''eta'']
             \<and> trace (h' self) = Some t
             \<and> h' = h(self := (h self)\<lparr>trace := Some t\<rparr>)
             \<and> (covers_free_variables eng \<longrightarrow>
                  (\<forall>n \<in> set [''slope'', ''inter'', ''int_std'', ''tau'', ''mu'', ''ksi'', ''eta''].
                     t n \<noteq> None)))
       \<and> (\<forall>r'. r' \<noteq> self \<longrightarrow> h' r' = h r')
       \<and> regressor.more (h' self) = regressor.more (h self)
       \<and> fit eng2 h' self X2 y2 y_error2 x_error2 kw2
           = fit eng2 h self X2 y2 y_error2 x_error2 kw2"
proof -
  from assms obtain m t kw where
    c: "construct eng (atleast_2d X) y y_error (atleast_2d x_error) = Inr m"
    and k: "kwargs_of sample_kwargs = Some kw" and s: "sample eng m kw = Inr t"
    and h': "h' = h(self := (h self)\<lparr>trace := Some t\<rparr>)" and r: "r = self"
    unfolding fit_Inr by blast
  from construct_Inr [OF c]
  have f: "free_names m = [''slope'', ''inter'', ''int_std'', ''tau'', ''mu'', ''ksi'', ''eta'']"
    by (auto simp: free_names_def)
  have cov: "\<forall>n \<in> set [''slope'', ''inter'', ''int_std'', ''tau'', ''mu'', ''ksi'', ''eta''].
      t n \<noteq> None" if "covers_free_variables eng"
    using that s f unfolding covers_free_variables_def by metis
  have again: "fit eng2 h' self X2 y2 y_error2 x_error2 kw2
      = fit eng2 h self X2 y2 y_error2 x_error2 kw2"
    unfolding fit_def Let_def h' by simp
  have t: "trace (h' self) = Some t" and others: "\<forall>r'. r' \<noteq> self \<longrightarrow> h' r' = h r'"
    and more: "regressor.more (h' self) = regressor.more (h self)"
    unfolding h' by simp_all
  from c k s f t h' cov have "\<exists>m t kw. construct eng (atleast_2d X) y y_error (atleast_2d x_error) = Inr m
      \<and> kwargs_of sample_kwargs = Some kw \<and> sample eng m kw = Inr t
      \<and> free_names m = [''slope'', ''inter'', ''int_std'', ''tau'', ''mu'', ''ksi'', ''eta'']
      \<and> trace (h' self) = Some t
      \<and> h' = h(self := (h self)\<lparr>trace := Some t\<rparr>)
      \<and> (covers_free_variables eng \<longrightarrow>
           (\<forall>n \<in> set [''slope'', ''inter'', ''int_std'', ''tau'', ''mu'', ''ksi'', ''eta''].
              t n \<noteq> None))"
    by blast
  with r others more again show ?thesis
    by blast
qed

theorem trace_stored_on_self_witness:
  "fit permissive_engine fresh_heap 0 ex_X ex_y ex_error ex_error Omitted
     = Inr (fresh_heap(0 := (fresh_heap 0)\<lparr>trace := Some (zero_trace ex_model)\<rparr>), 0)
   \<and> trace ((fresh_heap(0 := (fresh_heap 0)\<lparr>trace := Some (zero_trace ex_model)\<rparr>)) 0)
       = Some (zero_trace ex_model)
   \<and> zero_trace ex_model ''slope'' \<noteq> None
   \<and> zero_trace ex_model ''eta'' \<noteq> None
   \<and> fit permissive_engine
       (fresh_heap(0 := (fresh_heap 0)\<lparr>trace := Some (zero_trace ex_model)\<rparr>)) 0
       ex_X ex_y ex_error ex_error Omitted
     = fit permissive_engine fresh_heap 0 ex_X ex_y ex_error ex_error Omitted"
proof -
  from trace_stored_on_self [OF ex_fit, of permissive_engine ex_X ex_y ex_error ex_error Omitted]
  obtain m t where
    c: "construct permissive_engine (atleast_2d ex_X) ex_y ex_error (atleast_2d ex_error) = Inr m"
    and t: "trace ((fresh_heap(0 := (fresh_heap 0)\<lparr>trace := Some (zero_trace ex_model)\<rparr>)) 0)
        = Some t"
    and cov: "covers_free_variables permissive_engine \<longrightarrow>
        (\<forall>n \<in> set [''slope'', ''inter'', ''int_std'', ''tau'', ''mu'', ''ksi'', ''eta''].
           t n \<noteq> None)"
    and again: "fit permissive_engine
       (fresh_heap(0 := (fresh_heap 0)\<lparr>trace := Some (zero_trace ex_model)\<rparr>)) 0
       ex_X ex_y ex_error ex_error Omitted
     = fit permissive_engine fresh_heap 0 ex_X ex_y ex_error ex_error Omitted"
    by blast
  from t have t_eq: "t = zero_trace ex_model"
    by simp
  from cov covers_free_variables_permissive
  have "zero_trace ex_model ''slope'' \<noteq> None" "zero_trace ex_model ''eta'' \<noteq> None"
    unfolding t_eq by simp_all
  with ex_fit again show ?thesis
    by simp
qed

subsection \<open>Non-negative scatter\<close>

text \<open>
  Claim C8. In the trace that \<open>fit\<close> stores, every draw of \<open>int_std\<close> and every component
  of every draw of \<open>tau\<close> is non-negative. The values are the sampler's; what \<open>fit\<close>
  contributes is that both variables are declared half-flat and that the sampler's trace
  is stored as it is, so the property holds for every sampler that draws each free
  variable within the support of its prior.
\<close>

theorem scatter_draws_nonnegative:
  assumes "respects_support eng"
    and "fit eng h self X y y_error x_error sample_kwargs = Inr (h', r)"
  shows "\<exists>t. trace (h' r) = Some t
       \<and> (\<forall>draws. t ''int_std'' = Some draws \<longrightarrow> (\<forall>draw \<in> set draws. \<forall>v \<in> set draw. 0 \<le> v))
       \<and> (\<forall>draws. t ''tau'' = Some draws \<longrightarrow> (\<forall>draw \<in> set draws. \<forall>v \<in> set draw. 0 \<le> v))"
proof -
  from assms(2) obtain m t kw where
    c: "construct eng (atleast_2d X) y y_error (atleast_2d x_error) = Inr m"
    and k: "kwargs_of sample_kwargs = Some kw" and s: "sample eng m kw = Inr t"
    and h': "h' = h(self := (h self)\<lparr>trace := Some t\<rparr>)" and r: "r = self"
    unfolding fit_Inr by blast
  let ?int_std = "\<lparr>rv_name = ''int_std'', rv_dist = HalfFlat, rv_shape = [],
                   rv_observed = None\<rparr>"
  let ?tau = "\<lparr>rv_name = ''tau'', rv_dist = HalfFlat,
               rv_shape = [shape (atleast_2d X) ! 0], rv_observed = None\<rparr>"
  from construct_Inr [OF c] have mem: "?int_std \<in> set m" "?tau \<in> set m"
    by auto
  have sup: "\<forall>draw \<in> set draws. \<forall>v \<in> set draw. in_support (rv_dist d) v"
    if "d \<in> set m" "rv_observed d = None" "t (rv_name d) = Some draws" for d draws
    using assms(1) s that unfolding respects_support_def by blast
  have "\<forall>draw \<in> set draws. \<forall>v \<in> set draw. 0 \<le> v" if "t ''int_std'' = Some draws" for draws
    using sup [OF mem(1)] that by simp
  moreover
  have "\<forall>draw \<in> set draws. \<forall>v \<in> set draw. 0 \<le> v" if "t ''tau'' = Some draws" for draws
    using sup [OF mem(2)] that by simp
  ultimately show ?thesis
    using h' r by simp
qed

theorem scatter_draws_nonnegative_witness:
  "fit permissive_engine fresh_heap 0 ex_X ex_y ex_error ex_error Omitted
     = Inr (fresh_heap(0 := (fresh_heap 0)\<lparr>trace := Some (zero_trace ex_model)\<rparr>), 0)
   \<and> zero_trace ex_model ''int_std'' = Some [[0]]
   \<and> zero_trace ex_model ''tau'' = Some [[0]]
   \<and> (0::real) \<le> hd (hd (the (zero_trace ex_model ''int_std'')))
   \<and> (0::real) \<le> hd (hd (the (zero_trace ex_model ''tau'')))"
proof -
  have z: "zero_trace ex_model ''int_std'' = Some [[0]]" "zero_trace ex_model ''tau'' = Some [[0]]"
    by (simp_all add: zero_trace_def ex_model_def)
  from scatter_draws_nonnegative [OF respects_support_permissive ex_fit]
  have all: "\<forall>draws. zero_trace ex_model ''int_std'' = Some draws
          \<longrightarrow> (\<forall>draw \<in> set draws. \<forall>v \<in> set draw. 0 \<le> v)"
      "\<forall>draws. zero_trace ex_model ''tau'' = Some draws
          \<longrightarrow> (\<forall>draw \<in> set draws. \<forall>v \<in> set draw. 0 \<le> v)"
    by simp_all
  from all(1) z(1) have "\<forall>draw \<in> set [[0::real]]. \<forall>v \<in> set draw. 0 \<le> v"
    by blast
  moreover from all(2) z(2) have "\<forall>draw \<in> set [[0::real]]. \<forall>v \<in> set draw. 0 \<le> v"
    by blast
  ultimately show ?thesis
    using z ex_fit by simp
qed

subsection \<open>Coercion of the covariates\<close>

text \<open>
  Claim C9. \<open>fit\<close> first passes \<open>X\<close> and \<open>x_error\<close> through the same coercion
  \<open>atleast_2d\<close>, whose result has at least two dimensions: an input that numpy reads as a
  1-d array of length \<open>N\<close> becomes an array of shape \<open>(1, N)\<close> with the same entries, an
  input of two or more dimensions is unchanged, and inputs of equal shape are coerced to
  equal shapes. The model is built from the coerced arrays: in the model that a returning
  \<open>fit\<close> has sampled, \<open>xi\<close> is observed at \<open>atleast_2d X\<close>, with that array's shape and
  with \<open>atleast_2d x_error\<close> as standard deviation, \<open>slope\<close>, \<open>tau\<close> and \<open>mu\<close> have
  the length of its first axis and \<open>ksi\<close> has its shape reversed. \<open>fit\<close> gives the same
  on the coerced arrays as on the caller's objects.
\<close>

theorem inputs_coerced_to_2d:
  "2 \<le> ndim (atleast_2d X) \<and> 2 \<le> ndim (atleast_2d x_error)
   \<and> (shape (asanyarray a) = [N] \<longrightarrow>
         shape (atleast_2d a) = [1, N] \<and> data (atleast_2d a) = data (asanyarray a))
   \<and> (2 \<le> ndim (asanyarray a) \<longrightarrow> atleast_2d a = asanyarray a)
   \<and> (shape (asanyarray X) = shape (asanyarray x_error) \<longrightarrow>
         shape (atleast_2d X) = shape (atleast_2d x_error))
   \<and> (fit eng h self X y y_error x_error sample_kwargs = Inr (h', r) \<longrightarrow>
        (\<exists>m t kw. construct eng (atleast_2d X) y y_error (atleast_2d x_error) = Inr m
           \<and> kwargs_of sample_kwargs = Some kw \<and> sample eng m kw = Inr t
           \<and> trace (h' r) = Some t
           \<and> lookup_rv m ''xi'' = Some
               \<lparr>rv_name = ''xi'',
                rv_dist = Normal (Transpose (RV ''ksi''))
                                 (Sd (Obj (NDArray (atleast_2d x_error)))),
                rv_shape = shape (atleast_2d X),
                rv_observed = Some (NDArray (atleast_2d X))\<rparr>
           \<and> map_option rv_shape (lookup_rv m ''slope'') = Some [shape (atleast_2d X) ! 0]
           \<and> map_option rv_shape (lookup_rv m ''tau'') = Some [shape (atleast_2d X) ! 0]
           \<and> map_option rv_shape (lookup_rv m ''mu'') = Some [shape (atleast_2d X) ! 0]
           \<and> map_option rv_shape (lookup_rv m ''ksi'') = Some (rev (shape (atleast_2d X)))))
   \<and> fit eng h self X y y_error x_error sample_kwargs =
       fit eng h self (NDArray (atleast_2d X)) y y_error (NDArray (atleast_2d x_error))
         sample_kwargs"
proof -
  have "2 \<le> ndim (atleast_2d X)" "2 \<le> ndim (atleast_2d x_error)"
    by (simp_all add: ndim_def atleast_2d_ndim)
  moreover have "shape (atleast_2d a) = [1, N] \<and> data (atleast_2d a) = data (asanyarray a)"
    if "shape (asanyarray a) = [N]"
    using that by (simp add: atleast_2d_def ndim_def)
  moreover have "atleast_2d a = asanyarray a" if "2 \<le> ndim (asanyarray a)"
    using that by (simp add: atleast_2d_def)
  moreover have "shape (atleast_2d X) = shape (atleast_2d x_error)"
    if "shape (asanyarray X) = shape (asanyarray x_error)"
    using that by (simp add: atleast_2d_def ndim_def Let_def)
  moreover have "\<exists>m t kw. construct eng (atleast_2d X) y y_error (atleast_2d x_error) = Inr m
           \<and> kwargs_of sample_kwargs = Some kw \<and> sample eng m kw = Inr t
           \<and> trace (h' r) = Some t
           \<and> lookup_rv m ''xi'' = Some
               \<lparr>rv_name = ''xi'',
                rv_dist = Normal (Transpose (RV ''ksi''))
                                 (Sd (Obj (NDArray (atleast_2d x_error)))),
                rv_shape = shape (atleast_2d X),
                rv_observed = Some (NDArray (atleast_2d X))\<rparr>
           \<and> map_option rv_shape (lookup_rv m ''slope'') = Some [shape (atleast_2d X) ! 0]
           \<and> map_option rv_shape (lookup_rv m ''tau'') = Some [shape (atleast_2d X) ! 0]
           \<and> map_option rv_shape (lookup_rv m ''mu'') = Some [shape (atleast_2d X) ! 0]
           \<and> map_option rv_shape (lookup_rv m ''ksi'') = Some (rev (shape (atleast_2d X)))"
    if "fit eng h self X y y_error x_error sample_kwargs = Inr (h', r)"
  proof -
    from that obtain m kw t where
      c: "construct eng (atleast_2d X) y y_error (atleast_2d x_error) = Inr m"
      and k: "kwargs_of sample_kwargs = Some kw" and s: "sample eng m kw = Inr t"
      and h': "h' = h(self := (h self)\<lparr>trace := Some t\<rparr>)" and r: "r = self"
      unfolding fit_Inr by blast
    from h' r have t: "trace (h' r) = Some t"
      by simp
    from construct_Inr [OF c] have
      "lookup_rv m ''xi'' = Some
               \<lparr>rv_name = ''xi'',
                rv_dist = Normal (Transpose (RV ''ksi''))
                                 (Sd (Obj (NDArray (atleast_2d x_error)))),
                rv_shape = shape (atleast_2d X),
                rv_observed = Some (NDArray (atleast_2d X))\<rparr>"
      "map_option rv_shape (lookup_rv m ''slope'') = Some [shape (atleast_2d X) ! 0]"
      "map_option rv_shape (lookup_rv m ''tau'') = Some [shape (atleast_2d X) ! 0]"
      "map_option rv_shape (lookup_rv m ''mu'') = Some [shape (atleast_2d X) ! 0]"
      "map_option rv_shape (lookup_rv m ''ksi'') = Some (rev (shape (atleast_2d X)))"
      by (auto simp: lookup_rv_def)
    with c k s t show ?thesis
      by blast
  qed
  moreover have "fit eng h self X y y_error x_error sample_kwargs =
       fit eng h self (NDArray (atleast_2d X)) y y_error (NDArray (atleast_2d x_error))
         sample_kwargs"
    by (simp add: fit_def atleast_2d_idem)
  ultimately show ?thesis
    by blast
qed

theorem inputs_coerced_to_2d_witness:
  "shape (asanyarray ex_X) = [5] \<and> shape (atleast_2d ex_X) = [1, 5]
   \<and> data (atleast_2d ex_X) = [1, 2, 3, 4, 5]
   \<and> fit permissive_engine fresh_heap 0 ex_X ex_y ex_error ex_error Omitted
       = Inr (fresh_heap(0 := (fresh_heap 0)\<lparr>trace := Some (zero_trace ex_model)\<rparr>), 0)
   \<and> construct permissive_engine (atleast_2d ex_X) ex_y ex_error (atleast_2d ex_error)
       = Inr ex_model
   \<and> map_option rv_observed (lookup_rv ex_model ''xi'')
       = Some (Some (NDArray \<lparr>shape = [1, 5], data = [1, 2, 3, 4, 5]\<rparr>))
   \<and> map_option rv_shape (lookup_rv ex_model ''xi'') = Some [1, 5]
   \<and> map_option rv_shape (lookup_rv ex_model ''slope'') = Some [1]
   \<and> map_option rv_shape (lookup_rv ex_model ''ksi'') = Some [5, 1]"
proof -
  have a: "shape (asanyarray ex_X) = [5]" "data (asanyarray ex_X) = [1, 2, 3, 4, 5]"
    by (simp_all add: ex_X_def)
  note inst = inputs_coerced_to_2d [of ex_X ex_error ex_X 5 permissive_engine fresh_heap 0 ex_y
      ex_error Omitted
      "fresh_heap(0 := (fresh_heap 0)\<lparr>trace := Some (zero_trace ex_model)\<rparr>)" 0]
  from inst a have s: "shape (atleast_2d ex_X) = [1, 5]" "data (atleast_2d ex_X) = [1, 2, 3, 4, 5]"
    by simp_all
  from inst ex_fit obtain m where
    c: "construct permissive_engine (atleast_2d ex_X) ex_y ex_error (atleast_2d ex_error) = Inr m"
    and xi: "lookup_rv m ''xi'' = Some
               \<lparr>rv_name = ''xi'',
                rv_dist = Normal (Transpose (RV ''ksi''))
                                 (Sd (Obj (NDArray (atleast_2d ex_error)))),
                rv_shape = shape (atleast_2d ex_X),
                rv_observed = Some (NDArray (atleast_2d ex_X))\<rparr>"
    and sl: "map_option rv_shape (lookup_rv m ''slope'') = Some [shape (atleast_2d ex_X) ! 0]"
    and ks: "map_option rv_shape (lookup_rv m ''ksi'') = Some (rev (shape (atleast_2d ex_X)))"
    by blast
  from c ex_construct have m: "m = ex_model"
    by simp
  have x2: "atleast_2d ex_X = \<lparr>shape = [1, 5], data = [1, 2, 3, 4, 5]\<rparr>"
    by (simp add: atleast_2d_def ndim_def ex_X_def)
  from xi sl ks show ?thesis
    unfolding m using a s ex_fit ex_construct x2 by simp
qed

subsection \<open>A response without a shape\<close>




end
